theory Spec2Isabelle
  imports Complex_Main "HOL-Library.Multiset"
begin

section \<open>Errors raised by the batching engine\<close>

datatype error = ValueError | KeyError | StopIteration | ZeroDivisionError

section \<open>Size bucketing: \<open>fairseq/data/data_utils.py\<close>\<close>

text \<open>
  Python slices \<open>xs[:k]\<close> and \<open>xs[k:]\<close>. A negative bound counts from the end and
  is clipped at the start of the list.
\<close>

definition py_prefix :: "'a list \<Rightarrow> int \<Rightarrow> 'a list" where
  "py_prefix xs k = (if k < 0 then take (length xs - nat (- k)) xs else take (nat k) xs)"

definition py_suffix :: "'a list \<Rightarrow> int \<Rightarrow> 'a list" where
  "py_suffix xs k = (if k < 0 then drop (length xs - nat (- k)) xs else drop (nat k) xs)"

text \<open>Python's \<open>max\<close> over a non-empty list, scanning from the left.\<close>

fun py_max :: "int list \<Rightarrow> int" where
  "py_max [] = 0"
| "py_max (x # xs) = fold max xs x"

text \<open>
  The closure \<open>is_batch_full\<close> of \<open>batch_by_size\<close>; the batch it reads is passed in.
  An absent limit is \<open>float('Inf')\<close> in the source: never equal to a length and never
  exceeded.
\<close>

definition is_batch_full :: "int option \<Rightarrow> int option \<Rightarrow> int list \<Rightarrow> int \<Rightarrow> bool" where
  "is_batch_full max_tokens max_sentences batch num_tokens =
     (if length batch = 0 then False
      else if (case max_sentences of None \<Rightarrow> False | Some ms \<Rightarrow> int (length batch) = ms) then True
      else if (case max_tokens of None \<Rightarrow> False | Some mt \<Rightarrow> num_tokens > mt) then True
      else False)"

text \<open>
  The \<open>for idx in indices\<close> loop of \<open>batch_by_size\<close>, with the loop variables
  \<open>batch\<close>, \<open>sample_len\<close> and \<open>sample_lens\<close> as arguments. The result is the list of
  batches the generator yields, the trailing batch included. Python's \<open>//\<close> and \<open>%\<close>
  are floor division and its remainder, as \<open>div\<close> and \<open>mod\<close> on \<open>int\<close>, except that
  a zero divisor raises.
\<close>

fun batch_by_size_loop ::
  "(int \<Rightarrow> int) \<Rightarrow> int option \<Rightarrow> int option \<Rightarrow> int \<Rightarrow>
   int list \<Rightarrow> int list \<Rightarrow> int \<Rightarrow> int list \<Rightarrow> error + int list list" where
  "batch_by_size_loop num_tokens_fn max_tokens max_sentences bsz_mult [] batch sample_len sample_lens =
     Inr (if length batch > 0 then [batch] else [])"
| "batch_by_size_loop num_tokens_fn max_tokens max_sentences bsz_mult (idx # indices) batch sample_len sample_lens =
     (let sample_lens1 = sample_lens @ [num_tokens_fn idx];
          sample_len1 = max sample_len (last sample_lens1);
          num_tokens = (int (length batch) + 1) * sample_len1
      in if is_batch_full max_tokens max_sentences batch num_tokens then
           (if bsz_mult = 0 then Inl ZeroDivisionError
            else
              let mod_len = max (bsz_mult * (int (length batch) div bsz_mult))
                                (int (length batch) mod bsz_mult);
                  sample_lens2 = py_suffix sample_lens1 mod_len;
                  sample_len2 = (if length sample_lens2 > 0 then py_max sample_lens2 else 0)
              in (case batch_by_size_loop num_tokens_fn max_tokens max_sentences bsz_mult indices
                         (py_suffix batch mod_len @ [idx]) sample_len2 sample_lens2 of
                    Inl e \<Rightarrow> Inl e
                  | Inr batches \<Rightarrow> Inr (py_prefix batch mod_len # batches)))
         else batch_by_size_loop num_tokens_fn max_tokens max_sentences bsz_mult indices
                (batch @ [idx]) sample_len1 sample_lens1)"

definition batch_by_size ::
  "int list \<Rightarrow> (int \<Rightarrow> int) \<Rightarrow> int option \<Rightarrow> int option \<Rightarrow> int \<Rightarrow> error + int list list" where
  "batch_by_size indices num_tokens_fn max_tokens max_sentences required_batch_size_multiple =
     batch_by_size_loop num_tokens_fn max_tokens max_sentences required_batch_size_multiple
       indices [] 0 []"

section \<open>Iterators: \<open>fairseq/data/iterators.py\<close>\<close>

subsection \<open>Sized iterables\<close>

text \<open>
  What the iterators wrap: an object with \<open>__len__\<close> and \<open>__iter__\<close>. The reported
  length and the elements a pass over it yields are kept apart, since \<open>has_next\<close> reads
  the first and \<open>__next__\<close> the second.
\<close>

record 'a sized_iterable =
  len_of :: nat
  elems :: "'a list"


subsection \<open>CountingIterator\<close>

text \<open>
  \<open>itr\<close> is the generator made by \<open>iter(self)\<close>: the elements it has not yielded
  yet. The generator adds one to \<open>count\<close> each time it yields.
\<close>

record 'a counting_iterator =
  iterable :: "'a sized_iterable"
  count_ci :: nat
  itr :: "'a list"

definition CountingIterator :: "'a sized_iterable \<Rightarrow> 'a counting_iterator" where
  "CountingIterator it = \<lparr>iterable = it, count_ci = 0, itr = elems it\<rparr>"

definition len_ci :: "'a counting_iterator \<Rightarrow> nat" where
  "len_ci c = len_of (iterable c)"

definition next_ci :: "'a counting_iterator \<Rightarrow> error + ('a \<times> 'a counting_iterator)" where
  "next_ci c = (case itr c of
                  [] \<Rightarrow> Inl StopIteration
                | x # rest \<Rightarrow> Inr (x, c\<lparr>count_ci := count_ci c + 1, itr := rest\<rparr>))"


text \<open>
  \<open>next(itertools.islice(self.itr, n, n), None)\<close>: the slice is empty, and asking it
  for an element first draws \<open>n\<close> elements from \<open>self.itr\<close>, stopping early when
  \<open>self.itr\<close> is exhausted; the \<open>StopIteration\<close> of the slice is replaced by the
  default \<open>None\<close>. \<open>islice\<close> refuses a negative bound with \<open>ValueError\<close>.
\<close>

fun islice_consume :: "nat \<Rightarrow> 'a counting_iterator \<Rightarrow> 'a counting_iterator" where
  "islice_consume 0 c = c"
| "islice_consume (Suc n) c =
     (case next_ci c of Inl e \<Rightarrow> c | Inr (x, c') \<Rightarrow> islice_consume n c')"

definition skip :: "'a counting_iterator \<Rightarrow> int \<Rightarrow> error + 'a counting_iterator" where
  "skip c num_to_skip =
     (if num_to_skip < 0 then Inl ValueError else Inr (islice_consume (nat num_to_skip) c))"

subsection \<open>ShardedIterator\<close>

text \<open>
  \<open>itertools.islice(iterable, start, stop, step)\<close> over a list: the elements at
  positions \<open>start\<close>, \<open>start + step\<close>, \<open>\<dots>\<close> below \<open>stop\<close>. It is called with
  \<open>step \<ge> 1\<close> only.
\<close>

fun stride :: "nat \<Rightarrow> 'a list \<Rightarrow> 'a list" where
  "stride n [] = []"
| "stride n (x # xs) = x # stride n (drop (n - 1) xs)"

definition islice :: "'a list \<Rightarrow> nat \<Rightarrow> nat \<Rightarrow> nat \<Rightarrow> 'a list" where
  "islice xs start stop step = stride step (drop start (take stop xs))"

text \<open>
  \<open>itertools.zip_longest\<close>: \<open>None\<close> marks a position where that argument has run
  out, which Python fills with \<open>fillvalue\<close>.
\<close>

fun zip_longest :: "'a list \<Rightarrow> 'b list \<Rightarrow> ('a option \<times> 'b option) list" where
  "zip_longest [] [] = []"
| "zip_longest (x # xs) [] = (Some x, None) # zip_longest xs []"
| "zip_longest [] (y # ys) = (None, Some y) # zip_longest [] ys"
| "zip_longest (x # xs) (y # ys) = (Some x, Some y) # zip_longest xs ys"

record 'a sharded_iterator =
  sharded_len :: nat
  fill_value :: 'a
  sh_itr :: "(nat option \<times> 'a option) list"

definition ShardedIterator :: "'a list \<Rightarrow> int \<Rightarrow> int \<Rightarrow> 'a \<Rightarrow> error + 'a sharded_iterator" where
  "ShardedIterator xs num_shards shard_id fill =
     (if shard_id < 0 \<or> shard_id \<ge> num_shards then Inl ValueError
      else
        let l0 = int (length xs) div num_shards;
            l = (if int (length xs) mod num_shards > 0 then l0 + 1 else l0)
        in Inr \<lparr>sharded_len = nat l,
                fill_value = fill,
                sh_itr = zip_longest [0 ..< nat l]
                           (islice xs (nat shard_id) (length xs) (nat num_shards))\<rparr>)"

text \<open>One pass over the shard: \<open>__next__\<close> returns \<open>next(self.itr)[1]\<close>.\<close>

definition sharded_items :: "'a sharded_iterator \<Rightarrow> 'a list" where
  "sharded_items sh =
     map (\<lambda>p. case snd p of None \<Rightarrow> fill_value sh | Some b \<Rightarrow> b) (sh_itr sh)"

subsection \<open>The random generator and the data loader\<close>

text \<open>
  NumPy's process-wide generator is outside the repository. Its state is a value of an
  arbitrary type \<open>'r\<close>, threaded through every function that touches it;
  \<open>np.random.seed\<close> is a parameter \<open>np_seed\<close> giving the state a seed produces, and
  \<open>np.random.shuffle\<close> a parameter \<open>np_shuffle\<close> giving the reordered list and the
  state the generator is left in. \<open>get_state\<close> and \<open>set_state\<close> read and replace the
  threaded state.

  \<open>numpy_seed\<close> of \<open>data_utils.py\<close>: the body of the \<open>with\<close> block is a function of
  the generator state returning its outcome (a value or an exception, in \<open>'x\<close>) and the
  state it leaves. The \<open>finally\<close> clause runs for either outcome.
\<close>

definition numpy_seed :: "(int \<Rightarrow> 'r) \<Rightarrow> int option \<Rightarrow> ('r \<Rightarrow> 'x \<times> 'r) \<Rightarrow> 'r \<Rightarrow> 'x \<times> 'r" where
  "numpy_seed np_seed seed_opt body g =
     (case seed_opt of
        None \<Rightarrow> body g
      | Some s \<Rightarrow>
          (let state = g;
               g1 = np_seed s;
               (outcome, g2) = body g1
           in (outcome, state)))"

text \<open>
  \<open>torch.utils.data.DataLoader\<close> with a \<open>batch_sampler\<close> is outside the repository
  too: its length is the length of the sampler, and a pass over it yields, for each index
  list of the sampler, \<open>collate_fn\<close> of the samples at those indices.
\<close>

definition DataLoader ::
  "(int \<Rightarrow> 's) \<Rightarrow> ('s list \<Rightarrow> 'b) \<Rightarrow> int list sharded_iterator \<Rightarrow> 'b sized_iterable" where
  "DataLoader dataset collate_fn batch_sampler =
     \<lparr>len_of = sharded_len batch_sampler,
      elems = map (\<lambda>b. collate_fn (map dataset b)) (sharded_items batch_sampler)\<rparr>"

subsection \<open>EpochBatchIterator\<close>

text \<open>
  The fields of the class; \<open>p_cur_epoch_itr\<close> and \<open>p_next_epoch_itr\<close> are the private
  \<open>_cur_epoch_itr\<close> and \<open>_next_epoch_itr\<close>. The iterator that \<open>next_epoch_itr\<close>
  returns is the object held in \<open>_cur_epoch_itr\<close>, so the caller's \<open>next\<close> on it is an
  update of that field (\<open>next_batch\<close> below).
\<close>

record ('s, 'b) epoch_batch_iterator =
  dataset :: "int \<Rightarrow> 's"
  collate_fn :: "'s list \<Rightarrow> 'b"
  frozen_batches :: "int list list"
  seed :: int
  num_shards :: int
  shard_id :: int
  epoch :: int
  p_cur_epoch_itr :: "'b counting_iterator option"
  p_next_epoch_itr :: "'b counting_iterator option"

definition EpochBatchIterator ::
  "(int \<Rightarrow> 's) \<Rightarrow> ('s list \<Rightarrow> 'b) \<Rightarrow> int list list \<Rightarrow> int \<Rightarrow> int \<Rightarrow> int \<Rightarrow>
   ('s, 'b) epoch_batch_iterator" where
  "EpochBatchIterator ds cf batch_sampler sd n_shards sh_id =
     \<lparr>dataset = ds, collate_fn = cf, frozen_batches = batch_sampler, seed = sd,
      num_shards = n_shards, shard_id = sh_id,
      epoch = 0, p_cur_epoch_itr = None, p_next_epoch_itr = None\<rparr>"

definition get_iterator_for_epoch ::
  "(int \<Rightarrow> 'r) \<Rightarrow> (int list list \<Rightarrow> 'r \<Rightarrow> int list list \<times> 'r) \<Rightarrow>
   ('s, 'b) epoch_batch_iterator \<Rightarrow> int \<Rightarrow> bool \<Rightarrow> 'r \<Rightarrow>
   (error + 'b counting_iterator) \<times> 'r" where
  "get_iterator_for_epoch np_seed np_shuffle self ep shuffle g =
     (let (batches, g') =
            (if shuffle
             then numpy_seed np_seed (Some (seed self + ep)) (np_shuffle (frozen_batches self)) g
             else (frozen_batches self, g))
      in (case ShardedIterator batches (num_shards self) (shard_id self) [] of
            Inl e \<Rightarrow> (Inl e, g')
          | Inr sh \<Rightarrow>
              (Inr (CountingIterator (DataLoader (dataset self) (collate_fn self) sh)), g')))"

text \<open>
  \<open>next_epoch_itr\<close> returns the outcome (the iterator, or the exception of the shard
  check), the object after the call and the generator state. The counter is incremented
  before the iterator is derived, so it stays incremented when the derivation raises.
\<close>

definition next_epoch_itr ::
  "(int \<Rightarrow> 'r) \<Rightarrow> (int list list \<Rightarrow> 'r \<Rightarrow> int list list \<times> 'r) \<Rightarrow>
   ('s, 'b) epoch_batch_iterator \<Rightarrow> bool \<Rightarrow> 'r \<Rightarrow>
   (error + 'b counting_iterator) \<times> ('s, 'b) epoch_batch_iterator \<times> 'r" where
  "next_epoch_itr np_seed np_shuffle self shuffle g =
     (case p_next_epoch_itr self of
        Some nxt \<Rightarrow>
          (Inr nxt, self\<lparr>p_cur_epoch_itr := Some nxt, p_next_epoch_itr := None\<rparr>, g)
      | None \<Rightarrow>
          (let self1 = self\<lparr>epoch := epoch self + 1\<rparr>;
               (res, g') = get_iterator_for_epoch np_seed np_shuffle self1 (epoch self1) shuffle g
           in (case res of
                 Inl e \<Rightarrow> (Inl e, self1, g')
               | Inr c \<Rightarrow> (Inr c, self1\<lparr>p_cur_epoch_itr := Some c\<rparr>, g'))))"

definition iterations_in_epoch :: "('s, 'b) epoch_batch_iterator \<Rightarrow> int" where
  "iterations_in_epoch self =
     (case p_cur_epoch_itr self of
        Some c \<Rightarrow> int (count_ci c)
      | None \<Rightarrow> (case p_next_epoch_itr self of
                   Some c \<Rightarrow> int (count_ci c)
                 | None \<Rightarrow> 0))"

text \<open>
  The state dictionary maps keys to integers; Python's \<open>bool\<close> is a subtype of \<open>int\<close>
  and the \<open>shuffle\<close> entry is read for its truth value.
\<close>

definition state_dict :: "('s, 'b) epoch_batch_iterator \<Rightarrow> (string \<rightharpoonup> int)" where
  "state_dict self =
     [''epoch'' \<mapsto> epoch self, ''iterations_in_epoch'' \<mapsto> iterations_in_epoch self]"

definition load_state_dict ::
  "(int \<Rightarrow> 'r) \<Rightarrow> (int list list \<Rightarrow> 'r \<Rightarrow> int list list \<times> 'r) \<Rightarrow>
   ('s, 'b) epoch_batch_iterator \<Rightarrow> (string \<rightharpoonup> int) \<Rightarrow> 'r \<Rightarrow>
   (error + unit) \<times> ('s, 'b) epoch_batch_iterator \<times> 'r" where
  "load_state_dict np_seed np_shuffle self sdict g =
     (case sdict ''epoch'' of
        None \<Rightarrow> (Inl KeyError, self, g)
      | Some ep \<Rightarrow>
          (let self1 = self\<lparr>epoch := ep\<rparr>;
               itr_pos = (case sdict ''iterations_in_epoch'' of None \<Rightarrow> 0 | Some p \<Rightarrow> p)
           in if itr_pos > 0 then
                (let shuffle = (case sdict ''shuffle'' of None \<Rightarrow> True | Some v \<Rightarrow> v \<noteq> 0);
                     (res, g') = get_iterator_for_epoch np_seed np_shuffle self1 (epoch self1) shuffle g
                 in (case res of
                       Inl e \<Rightarrow> (Inl e, self1, g')
                     | Inr c \<Rightarrow>
                         if itr_pos < int (len_ci c) then
                           (case skip c itr_pos of
                              Inl e \<Rightarrow> (Inl e, self1, g')
                            | Inr c' \<Rightarrow> (Inr (), self1\<lparr>p_next_epoch_itr := Some c'\<rparr>, g'))
                         else (Inr (), self1, g')))
              else (Inr (), self1, g)))"

text \<open>
  The training loop's \<open>next(itr)\<close> on the iterator returned by \<open>next_epoch_itr\<close>, as an
  update of the object that holds it, and \<open>k\<close> such calls in a row, stopping at the
  first that raises.
\<close>

definition next_batch ::
  "('s, 'b) epoch_batch_iterator \<Rightarrow> (error + 'b) \<times> ('s, 'b) epoch_batch_iterator" where
  "next_batch self =
     (case p_cur_epoch_itr self of
        None \<Rightarrow> (Inl StopIteration, self)
      | Some c \<Rightarrow>
          (case next_ci c of
             Inl e \<Rightarrow> (Inl e, self)
           | Inr (x, c') \<Rightarrow> (Inr x, self\<lparr>p_cur_epoch_itr := Some c'\<rparr>)))"

fun take_batches ::
  "nat \<Rightarrow> ('s, 'b) epoch_batch_iterator \<Rightarrow> 'b list \<times> ('s, 'b) epoch_batch_iterator" where
  "take_batches 0 self = ([], self)"
| "take_batches (Suc k) self =
     (case next_batch self of
        (Inl e, self') \<Rightarrow> ([], self')
      | (Inr x, self') \<Rightarrow> (let (xs, self'') = take_batches k self' in (x # xs, self'')))"

subsection \<open>States of a counting iterator\<close>


section \<open>Properties of the size bucketing\<close>

lemma py_prefix_suffix: "py_prefix xs k @ py_suffix xs k = xs"
  by (simp add: py_prefix_def py_suffix_def)

lemma length_py_prefix:
  "0 \<le> k \<Longrightarrow> k \<le> int (length xs) \<Longrightarrow> int (length (py_prefix xs k)) = k"
  by (simp add: py_prefix_def)

lemma loop_concat:
  "bsz_mult \<noteq> 0 \<Longrightarrow>
   \<exists>bs. batch_by_size_loop f mt ms bsz_mult idxs batch sl sls = Inr bs \<and> concat bs = batch @ idxs"
proof (induction idxs arbitrary: batch sl sls)
  case Nil
  then show ?case by simp
next
  case (Cons idx idxs)
  let ?sls1 = "sls @ [f idx]"
  let ?sl1 = "max sl (last ?sls1)"
  show ?case
  proof (cases "is_batch_full mt ms batch ((int (length batch) + 1) * ?sl1)")
    case False
    with Cons.IH[OF Cons.prems, of "batch @ [idx]" ?sl1 ?sls1] show ?thesis
      by (simp add: Let_def)
  next
    case True
    let ?m = "max (bsz_mult * (int (length batch) div bsz_mult)) (int (length batch) mod bsz_mult)"
    let ?sls2 = "py_suffix ?sls1 ?m"
    let ?sl2 = "if length ?sls2 > 0 then py_max ?sls2 else 0"
    from Cons.IH[OF Cons.prems, of "py_suffix batch ?m @ [idx]" ?sl2 ?sls2]
    obtain bs where bs: "batch_by_size_loop f mt ms bsz_mult idxs (py_suffix batch ?m @ [idx]) ?sl2 ?sls2 = Inr bs"
      and c: "concat bs = (py_suffix batch ?m @ [idx]) @ idxs" by blast
    have "py_prefix batch ?m @ concat bs = batch @ idx # idxs"
      using c py_prefix_suffix[of batch ?m] by (metis append.assoc append_Cons append_Nil)
    with True bs Cons.prems show ?thesis
      by (simp add: Let_def)
  qed
qed

lemma mod_len_bounds:
  fixes n bm :: int
  assumes "1 \<le> bm" "1 \<le> n"
  shows "1 \<le> max (bm * (n div bm)) (n mod bm)"
    and "max (bm * (n div bm)) (n mod bm) \<le> n"
    and "max (bm * (n div bm)) (n mod bm) mod bm = 0 \<or> max (bm * (n div bm)) (n mod bm) < bm"
proof -
  have r: "0 \<le> n mod bm" "n mod bm < bm" using assms by simp_all
  have q: "bm * (n div bm) + n mod bm = n" by simp
  have q0: "0 \<le> n div bm" using assms by (simp add: pos_imp_zdiv_nonneg_iff)
  have p0: "0 \<le> bm * (n div bm)" using assms q0 by simp
  show "max (bm * (n div bm)) (n mod bm) \<le> n" using r q p0 by linarith
  consider (small) "n div bm = 0" | (big) "1 \<le> n div bm" using q0 by linarith
  then have "(1 \<le> max (bm * (n div bm)) (n mod bm)) \<and>
     (max (bm * (n div bm)) (n mod bm) mod bm = 0 \<or> max (bm * (n div bm)) (n mod bm) < bm)"
  proof cases
    case small
    then have "n mod bm = n" using q by simp
    then show ?thesis using assms r small by simp
  next
    case big
    have ge: "bm \<le> bm * (n div bm)"
      using mult_left_mono[of 1 "n div bm" bm] assms(1) big by linarith
    have m: "max (bm * (n div bm)) (n mod bm) = bm * (n div bm)" using ge r by linarith
    have one: "1 \<le> max (bm * (n div bm)) (n mod bm)" using ge assms(1) by linarith
    have "(bm * (n div bm)) mod bm = 0" by simp
    then have "max (bm * (n div bm)) (n mod bm) mod bm = 0" by (simp only: m)
    with one show ?thesis by blast
  qed
  then show "1 \<le> max (bm * (n div bm)) (n mod bm)"
    and "max (bm * (n div bm)) (n mod bm) mod bm = 0 \<or> max (bm * (n div bm)) (n mod bm) < bm"
    by simp_all
qed

lemma loop_nonempty:
  "batch \<noteq> [] \<Longrightarrow> batch_by_size_loop f mt ms bm idxs batch sl sls = Inr bs \<Longrightarrow> bs \<noteq> []"
proof (induction idxs arbitrary: batch sl sls bs)
  case Nil
  then show ?case by auto
next
  case (Cons idx idxs)
  show ?case
  proof (cases "is_batch_full mt ms batch ((int (length batch) + 1) * max sl (last (sls @ [f idx])))")
    case True
    with Cons.prems show ?thesis by (auto simp: Let_def split: if_splits sum.splits)
  next
    case False
    with Cons.prems have "batch_by_size_loop f mt ms bm idxs (batch @ [idx])
        (max sl (last (sls @ [f idx]))) (sls @ [f idx]) = Inr bs"
      by (simp add: Let_def)
    from Cons.IH[OF _ this] show ?thesis by simp
  qed
qed

lemma loop_multiple:
  "1 \<le> bm \<Longrightarrow> batch_by_size_loop f mt ms bm idxs batch sl sls = Inr bs \<Longrightarrow>
   \<forall>b \<in> set (butlast bs). b \<noteq> [] \<and> (int (length b) mod bm = 0 \<or> int (length b) < bm)"
proof (induction idxs arbitrary: batch sl sls bs)
  case Nil
  then show ?case by (auto split: if_splits)
next
  case (Cons idx idxs)
  let ?sls1 = "sls @ [f idx]"
  let ?sl1 = "max sl (last ?sls1)"
  show ?case
  proof (cases "is_batch_full mt ms batch ((int (length batch) + 1) * ?sl1)")
    case False
    with Cons.prems have "batch_by_size_loop f mt ms bm idxs (batch @ [idx]) ?sl1 ?sls1 = Inr bs"
      by (simp add: Let_def)
    from Cons.IH[OF Cons.prems(1) this] show ?thesis .
  next
    case True
    let ?m = "max (bm * (int (length batch) div bm)) (int (length batch) mod bm)"
    let ?sls2 = "py_suffix ?sls1 ?m"
    let ?sl2 = "if length ?sls2 > 0 then py_max ?sls2 else 0"
    from True have ne: "1 \<le> int (length batch)"
      by (cases batch) (simp_all add: is_batch_full_def)
    from True Cons.prems obtain bs' where
      bs': "batch_by_size_loop f mt ms bm idxs (py_suffix batch ?m @ [idx]) ?sl2 ?sls2 = Inr bs'"
      and bs: "bs = py_prefix batch ?m # bs'"
      by (auto simp: Let_def split: sum.splits)
    have ne': "bs' \<noteq> []" using loop_nonempty[OF _ bs'] by simp
    note mb = mod_len_bounds[OF Cons.prems(1) ne]
    have len: "int (length (py_prefix batch ?m)) = ?m"
      using mb by (intro length_py_prefix) simp_all
    have hd_ok: "py_prefix batch ?m \<noteq> [] \<and>
        (int (length (py_prefix batch ?m)) mod bm = 0 \<or> int (length (py_prefix batch ?m)) < bm)"
      using mb len by (metis length_0_conv of_nat_0 not_one_le_zero)
    from Cons.IH[OF Cons.prems(1) bs'] hd_ok ne' bs show ?thesis by simp
  qed
qed

text \<open>
  C1 (conservation). For a required multiple of at least one, \<open>batch_by_size\<close> returns
  normally, and its batches, read in order, are the input list: every index occurs in the
  batches as often as in the input, none dropped and none duplicated.
\<close>

theorem batch_by_size_conservation:
  "1 \<le> required_batch_size_multiple \<Longrightarrow>
   \<exists>batches. batch_by_size indices num_tokens_fn max_tokens max_sentences
                required_batch_size_multiple = Inr batches
            \<and> concat batches = indices
            \<and> mset (concat batches) = mset indices"
  using loop_concat[of required_batch_size_multiple num_tokens_fn max_tokens max_sentences indices "[]" 0 "[]"]
  by (auto simp: batch_by_size_def)

theorem batch_by_size_conservation_witness:
  "(1::int) \<le> 2 \<and>
   (\<exists>batches. batch_by_size [0, 1, 2, 3, 4] (\<lambda>i. if i = 3 then 2 else 1) (Some 3) (Some 100) 2
                = Inr batches
            \<and> concat batches = [0, 1, 2, 3, 4]
            \<and> mset (concat batches) = mset [0, 1, 2, 3, 4])"
  using batch_by_size_conservation[of 2 "[0, 1, 2, 3, 4]" "\<lambda>i. if i = 3 then 2 else 1" "Some 3" "Some 100"]
  by simp

text \<open>
  C6 (multiple constraint), as the code has it. The claim that every batch but the last
  has a length divisible by the required multiple fails: a candidate shorter than the
  multiple is emitted whole, since \<open>mod_len\<close> is then \<open>len(batch) % bsz_mult\<close>.
\<close>

theorem batch_by_size_multiple_counterexample:
  "batch_by_size [0, 1] (\<lambda>i. 5) (Some 5) None 8 = Inr [[0], [1]]
   \<and> int (length (hd (butlast [[0], [1::int]]))) mod 8 \<noteq> 0"
  by (simp add: batch_by_size_def is_batch_full_def py_prefix_def py_suffix_def Let_def)

text \<open>
  C6, amended. For a required multiple of at least one, every batch other than the last is
  non-empty and its length is either a multiple of the required multiple or smaller than
  it.
\<close>

theorem batch_by_size_multiple:
  "1 \<le> required_batch_size_multiple \<Longrightarrow>
   batch_by_size indices num_tokens_fn max_tokens max_sentences
     required_batch_size_multiple = Inr batches \<Longrightarrow>
   \<forall>b \<in> set (butlast batches).
      b \<noteq> [] \<and> (int (length b) mod required_batch_size_multiple = 0
                \<or> int (length b) < required_batch_size_multiple)"
  unfolding batch_by_size_def by (rule loop_multiple)

theorem batch_by_size_multiple_witness:
  "(1::int) \<le> 2
   \<and> batch_by_size [0, 1, 2, 3, 4] (\<lambda>i. if i = 3 then 2 else 1) (Some 3) (Some 100) 2
       = Inr [[0, 1], [2, 3], [4]]
   \<and> int (length [0, 1::int]) mod 2 = 0 \<and> int (length [2, 3::int]) mod 2 = 0"
proof -
  have e: "batch_by_size [0, 1, 2, 3, 4] (\<lambda>i. if i = 3 then 2 else 1) (Some 3) (Some 100) 2
       = Inr [[0, 1], [2, 3], [4]]"
    by (simp add: batch_by_size_def is_batch_full_def py_prefix_def py_suffix_def Let_def)
  have h: "(1::int) \<le> 2" by simp
  from batch_by_size_multiple[OF h e] h e show ?thesis by simp
qed

text \<open>
  C2 (budget respect) at a failing input: required multiple 2, token budget 3, sizes
  1, 1, 1, 2, 1. The candidate \<open>[0, 1, 2]\<close> is closed when index 3 arrives, its prefix
  \<open>[0, 1]\<close> is emitted and the remainder \<open>[2]\<close> is carried; index 3 is appended to it
  without a second check, and \<open>[2, 3]\<close>, of two examples with largest size 2, is
  emitted next, before the trailing batch \<open>[4]\<close>.
\<close>

theorem batch_by_size_budget_failing_input:
  "batch_by_size [0, 1, 2, 3, 4] (\<lambda>i. if i = 3 then 2 else 1) (Some 3) (Some 100) 2
     = Inr [[0, 1], [2, 3], [4]]
   \<and> int (length [2, 3::int]) * Max ((\<lambda>i. if i = 3 then 2 else 1) ` set [2, 3::int]) > (3::int)"
  by (simp add: batch_by_size_def is_batch_full_def py_prefix_def py_suffix_def Let_def)

section \<open>Properties of the counting iterator\<close>






end
